theory Spec2Isabelle
  imports Main
begin

section \<open>Data model\<close>

text \<open>
  The three mongoose schemas of the backend (users, signals, feed posts with embedded
  comments) as records. An ObjectId is a natural number; a date is the number of
  milliseconds since the epoch, as \<open>Date.now()\<close> gives it. Field names that several
  schemas share (\<open>_id\<close>, \<open>createdAt\<close>, \<open>createdBy\<close>) carry the schema as a prefix.
\<close>

type_synonym objectId = nat

datatype role = RoleUser | RoleAdmin

record user =
  user_id :: objectId
  email :: string
  password :: string
  isPremium :: bool
  role :: role
  user_createdAt :: int

datatype signal_type = Free | Premium

record signal =
  signal_id :: objectId
  title :: "string option"
  description :: "string option"
  signal_type :: signal_type
  signal_createdAt :: int
  signal_createdBy :: objectId

record comment =
  comment_id :: objectId
  comment_user :: objectId
  comment_text :: string
  comment_createdAt :: int

record feed =
  feed_id :: objectId
  imageUrl :: string
  caption :: string
  likes :: "objectId list"
  comments :: "comment list"
  feed_createdAt :: int
  feed_createdBy :: objectId

text \<open>
  The document store: one list per collection, in insertion order, and the generator of
  fresh ObjectIds that \<open>new Model(...)\<close> draws from.
\<close>

record db =
  users :: "user list"
  signals :: "signal list"
  feeds :: "feed list"
  nextObjectId :: objectId

definition emptyDb :: db where
  "emptyDb = \<lparr>users = [], signals = [], feeds = [], nextObjectId = 0\<rparr>"

definition newObjectId :: "db \<Rightarrow> objectId \<times> db" where
  "newObjectId s = (nextObjectId s, s\<lparr>nextObjectId := Suc (nextObjectId s)\<rparr>)"

section \<open>Values of a request\<close>

text \<open>
  The body of a request is parsed JSON, and the handlers do not test the type of what
  they read from it: the password of a signup or login and the text of a comment are
  any JSON value (numbers are the integers), or are missing (\<open>None\<close>, the value
  \<open>undefined\<close>). The other fields are modelled at the type the schema gives them: the
  email is a text, the empty one when it is missing; \<open>isPremium\<close> is a truth value or
  missing; the fields of a new signal and of a new post are texts or missing.
\<close>

datatype json =
    JNull
  | JBool bool
  | JNum int
  | JStr string
  | JArr "json list"
  | JObj "(string \<times> json) list"

text \<open>\<open>typeof v === "string"\<close>, with the text.\<close>

definition jsString :: "json option \<Rightarrow> string option" where
  "jsString v = (case v of Some (JStr x) \<Rightarrow> Some x | _ \<Rightarrow> None)"

text \<open>What \<open>!v\<close> negates: every value but undefined, null, false, 0 and the empty text.\<close>

definition truthy :: "json option \<Rightarrow> bool" where
  "truthy v =
     (case v of
        None \<Rightarrow> False
      | Some JNull \<Rightarrow> False
      | Some (JBool b) \<Rightarrow> b
      | Some (JNum n) \<Rightarrow> n \<noteq> 0
      | Some (JStr x) \<Rightarrow> x \<noteq> []
      | Some (JArr xs) \<Rightarrow> True
      | Some (JObj kvs) \<Rightarrow> True)"

text \<open>
  The \<open>:id\<close> of a path: a text that mongoose casts to an ObjectId, or one that it does
  not, on which \<open>findById\<close> throws a CastError.
\<close>

datatype id_param = Uncastable | Castable objectId

section \<open>Environment\<close>

text \<open>
  What the process takes from outside the repository: the signing secret
  \<open>process.env.JWT_SECRET\<close> (\<open>None\<close> when the variable is unset), and the library
  functions whose code is not part of the repository, taken as parameters:
  validator's \<open>isEmail\<close>, bcrypt's \<open>hash\<close> (of a password and the salt it draws) and
  \<open>compare\<close>, both on texts, the parser behind \<open>new Date(text)\<close> (\<open>None\<close> is an Invalid
  Date), the text that express-validator reads a value as when it is no text
  (\<open>validatorToString\<close>), and the text that mongoose casts such a value to for a
  \<open>String\<close> path (\<open>castString\<close>, \<open>None\<close> for a CastError).
\<close>

record config =
  JWT_SECRET :: "string option"
  isEmail :: "string \<Rightarrow> bool"
  bcrypt_hash :: "string \<Rightarrow> string \<Rightarrow> string"
  bcrypt_compare :: "string \<Rightarrow> string \<Rightarrow> bool"
  parseDate :: "string \<Rightarrow> int option"
  validatorToString :: "json \<Rightarrow> string"
  castString :: "json \<Rightarrow> string option"

text \<open>What one request reads from the clock and from the random generator.\<close>

record io =
  now :: int
  salt :: string

section \<open>Tokens\<close>

text \<open>
  A token of the jsonwebtoken library, by its contract: it carries the payload
  \<open>{userId}\<close>, the issue and expiry times in seconds, and a signature, which stands
  here as the key that produced it. \<open>jwt.sign\<close> throws on an empty or missing key;
  \<open>expiresIn: "1d"\<close> is 86400 seconds. \<open>jwt.verify\<close> throws on a missing key, on a
  signature made with another key, and once the clock has reached the expiry time.
\<close>

datatype jwt = Jwt (jwt_userId: objectId) (jwt_iat: int) (jwt_exp: int) (jwt_key: string)

definition jwt_sign :: "objectId \<Rightarrow> string option \<Rightarrow> int \<Rightarrow> jwt option" where
  "jwt_sign uid secret t =
     (case secret of
        None \<Rightarrow> None
      | Some k \<Rightarrow>
          if k = [] then None
          else Some (Jwt uid (t div 1000) (t div 1000 + 86400) k))"

definition jwt_verify :: "jwt \<Rightarrow> string option \<Rightarrow> int \<Rightarrow> objectId option" where
  "jwt_verify tok secret t =
     (case secret of
        None \<Rightarrow> None
      | Some k \<Rightarrow>
          if k = [] then None
          else if jwt_key tok \<noteq> k then None
          else if jwt_exp tok \<le> t div 1000 then None
          else Some (jwt_userId tok))"

section \<open>Requests and responses\<close>

text \<open>
  The \<open>Authorization\<close> header after \<open>replace("Bearer ", "")\<close>: no header at all, nothing
  left (an empty token), a text that is no token, or a token.
\<close>

datatype authorization = NoHeader | EmptyToken | Malformed | Bearer jwt

text \<open>A populated reference: the \<open>_id\<close> and \<open>email\<close> of the user, or null.\<close>

type_synonym user_ref = "(objectId \<times> string) option"

text \<open>
  The JSON bodies the routes send. In the body of a user signup or login the third
  component is the \<open>isPremium\<close> key; \<open>None\<close> is the value \<open>undefined\<close>, which the
  serialisation leaves out.
\<close>

datatype body =
    Error string
  | ValidationErrors "string list"
  | Message string
  | UserAuth jwt objectId string "bool option"
  | AdminAuth jwt objectId string
  | SignalDoc signal
  | SignalList "(signal \<times> user_ref) list"
  | FeedDoc feed
  | FeedList "(feed \<times> user_ref \<times> (comment \<times> user_ref) list) list"

datatype response = Response (status: nat) (body: body)

section \<open>Store queries\<close>

definition User_findById :: "user list \<Rightarrow> objectId \<Rightarrow> user option" where
  "User_findById us i = find (\<lambda>u. user_id u = i) us"

definition User_findOne_email :: "user list \<Rightarrow> string \<Rightarrow> user option" where
  "User_findOne_email us e = find (\<lambda>u. email u = e) us"

definition User_findOne_email_role :: "user list \<Rightarrow> string \<Rightarrow> role \<Rightarrow> user option" where
  "User_findOne_email_role us e r = find (\<lambda>u. email u = e \<and> role u = r) us"

text \<open>
  Saving a new user: the unique index on \<open>email\<close> rejects a second document with the
  same address (the save throws).
\<close>

definition User_save :: "user \<Rightarrow> db \<Rightarrow> db option" where
  "User_save u s =
     (if email u \<in> set (map email (users s)) then None
      else Some (s\<lparr>users := users s @ [u]\<rparr>))"

definition Feed_findById :: "feed list \<Rightarrow> objectId \<Rightarrow> feed option" where
  "Feed_findById ps i = find (\<lambda>p. feed_id p = i) ps"

text \<open>Saving a document that was loaded from the store writes it back in its place.\<close>

fun Feed_update :: "feed \<Rightarrow> feed list \<Rightarrow> feed list" where
  "Feed_update p [] = []"
| "Feed_update p (q # qs) =
     (if feed_id q = feed_id p then p # qs else q # Feed_update p qs)"

definition populate :: "user list \<Rightarrow> objectId \<Rightarrow> user_ref" where
  "populate us i = map_option (\<lambda>u. (user_id u, email u)) (User_findById us i)"

text \<open>
  A query on \<open>createdAt\<close>: no condition, or \<open>$gt\<close> of a date; an Invalid Date cannot be
  cast and the query throws (\<open>None\<close>).
\<close>

definition createdAt_matches :: "int option option \<Rightarrow> int \<Rightarrow> bool" where
  "createdAt_matches c t = (case c of None \<Rightarrow> True | Some None \<Rightarrow> False | Some (Some d) \<Rightarrow> d < t)"

definition sortDesc :: "('a \<Rightarrow> int) \<Rightarrow> 'a list \<Rightarrow> 'a list" where
  "sortDesc f xs = sort_key (\<lambda>x. - f x) xs"

definition Signal_find :: "signal_type option \<Rightarrow> int option option \<Rightarrow> signal list \<Rightarrow> signal list option" where
  "Signal_find ty c gs =
     (if c = Some None then None
      else Some (filter (\<lambda>g. (case ty of None \<Rightarrow> True | Some t \<Rightarrow> signal_type g = t)
                              \<and> createdAt_matches c (signal_createdAt g)) gs))"

definition Feed_find :: "int option option \<Rightarrow> feed list \<Rightarrow> feed list option" where
  "Feed_find c ps =
     (if c = Some None then None
      else Some (filter (\<lambda>p. createdAt_matches c (feed_createdAt p)) ps))"

text \<open>\<open>since ? { $gt: new Date(since) } : nothing\<close>; the empty text is falsy.\<close>

definition sinceQuery :: "config \<Rightarrow> string option \<Rightarrow> int option option" where
  "sinceQuery cfg since =
     (case since of
        None \<Rightarrow> None
      | Some txt \<Rightarrow> if txt = [] then None else Some (parseDate cfg txt))"

section \<open>Middleware\<close>

definition serverError :: response where
  "serverError = Response 500 (Error ''Server error'')"

definition authMiddleware :: "config \<Rightarrow> io \<Rightarrow> authorization \<Rightarrow> db \<Rightarrow> response + user" where
  "authMiddleware cfg t hdr s =
     (case hdr of
        NoHeader \<Rightarrow> Inl (Response 401 (Error ''Authentication required''))
      | EmptyToken \<Rightarrow> Inl (Response 401 (Error ''Authentication required''))
      | Malformed \<Rightarrow> Inl (Response 401 (Error ''Invalid token''))
      | Bearer tok \<Rightarrow>
          (case jwt_verify tok (JWT_SECRET cfg) (now t) of
             None \<Rightarrow> Inl (Response 401 (Error ''Invalid token''))
           | Some uid \<Rightarrow>
               (case User_findById (users s) uid of
                  None \<Rightarrow> Inl (Response 401 (Error ''User not found''))
                | Some u \<Rightarrow> Inr u)))"

definition adminMiddleware :: "user \<Rightarrow> response option" where
  "adminMiddleware u =
     (if role u \<noteq> RoleAdmin then Some (Response 403 (Error ''Admin access required''))
      else None)"

text \<open>
  The validation chains. The validators work on a text: a text is read as it is, a
  field that is missing from the body as the empty text, and any other value as the
  library converts it.
\<close>

definition fieldString :: "config \<Rightarrow> json option \<Rightarrow> string" where
  "fieldString cfg v =
     (case v of
        None \<Rightarrow> []
      | Some (JStr x) \<Rightarrow> x
      | Some w \<Rightarrow> validatorToString cfg w)"

definition validateSignup :: "config \<Rightarrow> string \<Rightarrow> json option \<Rightarrow> string list" where
  "validateSignup cfg em pw =
     (if isEmail cfg em then [] else [''Invalid email'']) @
     (if 6 \<le> length (fieldString cfg pw) then []
      else [''Password must be at least 6 characters''])"

definition validateLogin :: "config \<Rightarrow> string \<Rightarrow> json option \<Rightarrow> string list" where
  "validateLogin cfg em pw =
     (if isEmail cfg em then [] else [''Invalid email'']) @
     (if fieldString cfg pw \<noteq> [] then [] else [''Password is required''])"

section \<open>Authentication routes\<close>

text \<open>
  \<open>bcrypt.hash\<close> and \<open>bcrypt.compare\<close> reject a password that is not a text; the
  rejection is thrown inside the \<open>try\<close> of the handler, whose \<open>catch\<close> answers 500.
\<close>

definition userSignup ::
  "config \<Rightarrow> io \<Rightarrow> string \<Rightarrow> json option \<Rightarrow> bool option \<Rightarrow> db \<Rightarrow> db \<times> response" where
  "userSignup cfg t em pw prem s =
     (let errors = validateSignup cfg em pw in
      if errors \<noteq> [] then (s, Response 400 (ValidationErrors errors))
      else
        (case User_findOne_email (users s) em of
           Some existingUser \<Rightarrow> (s, Response 400 (Error ''Email already exists''))
         | None \<Rightarrow>
             (case jsString pw of
                None \<Rightarrow> (s, serverError)
              | Some pwText \<Rightarrow>
                  (let hashedPassword = bcrypt_hash cfg pwText (salt t);
                       (uid, s1) = newObjectId s;
                       u = \<lparr>user_id = uid, email = em, password = hashedPassword,
                            isPremium = (case prem of None \<Rightarrow> False | Some b \<Rightarrow> b),
                            role = RoleUser, user_createdAt = now t\<rparr>
                   in case User_save u s1 of
                        None \<Rightarrow> (s1, serverError)
                      | Some s2 \<Rightarrow>
                          (case jwt_sign uid (JWT_SECRET cfg) (now t) of
                             None \<Rightarrow> (s2, serverError)
                           | Some token \<Rightarrow>
                               (s2, Response 201 (UserAuth token uid em prem)))))))"

definition adminSignup ::
  "config \<Rightarrow> io \<Rightarrow> string \<Rightarrow> json option \<Rightarrow> db \<Rightarrow> db \<times> response" where
  "adminSignup cfg t em pw s =
     (let errors = validateSignup cfg em pw in
      if errors \<noteq> [] then (s, Response 400 (ValidationErrors errors))
      else
        (case User_findOne_email (users s) em of
           Some existingUser \<Rightarrow> (s, Response 400 (Error ''Email already exists''))
         | None \<Rightarrow>
             (case jsString pw of
                None \<Rightarrow> (s, serverError)
              | Some pwText \<Rightarrow>
                  (let hashedPassword = bcrypt_hash cfg pwText (salt t);
                       (uid, s1) = newObjectId s;
                       u = \<lparr>user_id = uid, email = em, password = hashedPassword,
                            isPremium = False, role = RoleAdmin, user_createdAt = now t\<rparr>
                   in case User_save u s1 of
                        None \<Rightarrow> (s1, serverError)
                      | Some s2 \<Rightarrow>
                          (case jwt_sign uid (JWT_SECRET cfg) (now t) of
                             None \<Rightarrow> (s2, serverError)
                           | Some token \<Rightarrow> (s2, Response 201 (AdminAuth token uid em)))))))"

definition userLogin ::
  "config \<Rightarrow> io \<Rightarrow> string \<Rightarrow> json option \<Rightarrow> db \<Rightarrow> db \<times> response" where
  "userLogin cfg t em pw s =
     (let errors = validateLogin cfg em pw in
      if errors \<noteq> [] then (s, Response 400 (ValidationErrors errors))
      else
        (case User_findOne_email_role (users s) em RoleUser of
           None \<Rightarrow> (s, Response 401 (Error ''Invalid credentials''))
         | Some u \<Rightarrow>
             (case jsString pw of
                None \<Rightarrow> (s, serverError)
              | Some pwText \<Rightarrow>
                  if \<not> bcrypt_compare cfg pwText (password u)
                  then (s, Response 401 (Error ''Invalid credentials''))
                  else
                    (case jwt_sign (user_id u) (JWT_SECRET cfg) (now t) of
                       None \<Rightarrow> (s, serverError)
                     | Some token \<Rightarrow>
                         (s, Response 200
                               (UserAuth token (user_id u) em (Some (isPremium u))))))))"

definition adminLogin ::
  "config \<Rightarrow> io \<Rightarrow> string \<Rightarrow> json option \<Rightarrow> db \<Rightarrow> db \<times> response" where
  "adminLogin cfg t em pw s =
     (let errors = validateLogin cfg em pw in
      if errors \<noteq> [] then (s, Response 400 (ValidationErrors errors))
      else
        (case User_findOne_email_role (users s) em RoleAdmin of
           None \<Rightarrow> (s, Response 401 (Error ''Invalid credentials''))
         | Some u \<Rightarrow>
             (case jsString pw of
                None \<Rightarrow> (s, serverError)
              | Some pwText \<Rightarrow>
                  if \<not> bcrypt_compare cfg pwText (password u)
                  then (s, Response 401 (Error ''Invalid credentials''))
                  else
                    (case jwt_sign (user_id u) (JWT_SECRET cfg) (now t) of
                       None \<Rightarrow> (s, serverError)
                     | Some token \<Rightarrow> (s, Response 200 (AdminAuth token (user_id u) em))))))"

definition logout :: "db \<Rightarrow> db \<times> response" where
  "logout s =
     (s, Response 200
           (Message ''Logout successful. Please remove the token from client storage.''))"

section \<open>Signal routes\<close>

text \<open>
  A route behind \<open>authMiddleware\<close> (and \<open>adminMiddleware\<close>) is its handler, the
  last callback of the route, run on the user the middleware attached to the request;
  a middleware that answers ends the request with the store as it was.
\<close>

text \<open>The \<open>type\<close> of the body must be one of the two texts of the enumeration.\<close>

definition parseSignalType :: "string option \<Rightarrow> signal_type option" where
  "parseSignalType ty =
     (if ty = Some ''free'' then Some Free
      else if ty = Some ''premium'' then Some Premium
      else None)"

definition createSignalHandler ::
  "io \<Rightarrow> user \<Rightarrow> string option \<Rightarrow> string option \<Rightarrow> string option \<Rightarrow> db \<Rightarrow> db \<times> response" where
  "createSignalHandler t req_user ttl descr ty s =
     (case parseSignalType ty of
        None \<Rightarrow> (s, Response 400 (Error ''Invalid signal type''))
      | Some ty' \<Rightarrow>
          (let (sid, s1) = newObjectId s;
               sg = \<lparr>signal_id = sid, title = ttl, description = descr,
                     signal_type = ty', signal_createdAt = now t,
                     signal_createdBy = user_id req_user\<rparr>
           in (s1\<lparr>signals := signals s1 @ [sg]\<rparr>, Response 201 (SignalDoc sg))))"

definition createSignal ::
  "config \<Rightarrow> io \<Rightarrow> authorization \<Rightarrow> string option \<Rightarrow> string option \<Rightarrow> string option \<Rightarrow> db
     \<Rightarrow> db \<times> response" where
  "createSignal cfg t hdr ttl descr ty s =
     (case authMiddleware cfg t hdr s of
        Inl r \<Rightarrow> (s, r)
      | Inr req_user \<Rightarrow>
          (case adminMiddleware req_user of
             Some r \<Rightarrow> (s, r)
           | None \<Rightarrow> createSignalHandler t req_user ttl descr ty s))"

definition getSignalsHandler :: "config \<Rightarrow> user \<Rightarrow> string option \<Rightarrow> db \<Rightarrow> db \<times> response" where
  "getSignalsHandler cfg req_user since s =
     (let query_type = (if isPremium req_user then None else Some Free);
          query_createdAt = sinceQuery cfg since
      in case Signal_find query_type query_createdAt (signals s) of
           None \<Rightarrow> (s, serverError)
         | Some found \<Rightarrow>
             (s, Response 200
                   (SignalList
                      (map (\<lambda>g. (g, populate (users s) (signal_createdBy g)))
                         (sortDesc signal_createdAt found)))))"

definition getSignals ::
  "config \<Rightarrow> io \<Rightarrow> authorization \<Rightarrow> string option \<Rightarrow> db \<Rightarrow> db \<times> response" where
  "getSignals cfg t hdr since s =
     (case authMiddleware cfg t hdr s of
        Inl r \<Rightarrow> (s, r)
      | Inr req_user \<Rightarrow> getSignalsHandler cfg req_user since s)"

section \<open>Feed routes\<close>

definition createFeedHandler ::
  "io \<Rightarrow> user \<Rightarrow> string option \<Rightarrow> string option \<Rightarrow> db \<Rightarrow> db \<times> response" where
  "createFeedHandler t req_user img cap s =
     (case (img, cap) of
        (Some i, Some c) \<Rightarrow>
          if i = [] \<or> c = []
          then (s, Response 400 (Error ''Image URL and caption are required''))
          else
            (let (fid, s1) = newObjectId s;
                 feedPost = \<lparr>feed_id = fid, imageUrl = i, caption = c, likes = [],
                             comments = [], feed_createdAt = now t,
                             feed_createdBy = user_id req_user\<rparr>
             in (s1\<lparr>feeds := feeds s1 @ [feedPost]\<rparr>, Response 201 (FeedDoc feedPost)))
      | _ \<Rightarrow> (s, Response 400 (Error ''Image URL and caption are required'')))"

definition createFeed ::
  "config \<Rightarrow> io \<Rightarrow> authorization \<Rightarrow> string option \<Rightarrow> string option \<Rightarrow> db \<Rightarrow> db \<times> response" where
  "createFeed cfg t hdr img cap s =
     (case authMiddleware cfg t hdr s of
        Inl r \<Rightarrow> (s, r)
      | Inr req_user \<Rightarrow>
          (case adminMiddleware req_user of
             Some r \<Rightarrow> (s, r)
           | None \<Rightarrow> createFeedHandler t req_user img cap s))"

definition getFeedHandler :: "config \<Rightarrow> user \<Rightarrow> string option \<Rightarrow> db \<Rightarrow> db \<times> response" where
  "getFeedHandler cfg req_user since s =
     (case Feed_find (sinceQuery cfg since) (feeds s) of
        None \<Rightarrow> (s, serverError)
      | Some found \<Rightarrow>
          (s, Response 200
                (FeedList
                   (map (\<lambda>p. (p, populate (users s) (feed_createdBy p),
                                map (\<lambda>c. (c, populate (users s) (comment_user c))) (comments p)))
                      (sortDesc feed_createdAt found)))))"

definition getFeed ::
  "config \<Rightarrow> io \<Rightarrow> authorization \<Rightarrow> string option \<Rightarrow> db \<Rightarrow> db \<times> response" where
  "getFeed cfg t hdr since s =
     (case authMiddleware cfg t hdr s of
        Inl r \<Rightarrow> (s, r)
      | Inr req_user \<Rightarrow> getFeedHandler cfg req_user since s)"

text \<open>\<open>likes.indexOf(id)\<close>: the first position of the id, \<open>None\<close> for -1.\<close>

fun indexOf :: "'a list \<Rightarrow> 'a \<Rightarrow> nat option" where
  "indexOf [] x = None"
| "indexOf (y # ys) x = (if y = x then Some 0 else map_option Suc (indexOf ys x))"

text \<open>\<open>splice(i, 1)\<close>: the list without its element at position \<open>i\<close>.\<close>

definition splice1 :: "nat \<Rightarrow> 'a list \<Rightarrow> 'a list" where
  "splice1 i xs = take i xs @ drop (Suc i) xs"

definition toggleLike :: "objectId \<Rightarrow> objectId list \<Rightarrow> objectId list" where
  "toggleLike uid ls =
     (case indexOf ls uid of
        None \<Rightarrow> ls @ [uid]
      | Some userIndex \<Rightarrow> splice1 userIndex ls)"

text \<open>
  \<open>Feed.findById(req.params.id)\<close> stands inside the \<open>try\<close> of the handler: on an id
  that does not cast, the CastError it throws is caught and answered 500.
\<close>

definition likeFeedHandler :: "user \<Rightarrow> id_param \<Rightarrow> db \<Rightarrow> db \<times> response" where
  "likeFeedHandler req_user pid s =
     (case pid of
        Uncastable \<Rightarrow> (s, serverError)
      | Castable i \<Rightarrow>
          (case Feed_findById (feeds s) i of
             None \<Rightarrow> (s, Response 404 (Error ''Feed post not found''))
           | Some feedPost \<Rightarrow>
               (let feedPost' =
                      feedPost\<lparr>likes := toggleLike (user_id req_user) (likes feedPost)\<rparr>
                in (s\<lparr>feeds := Feed_update feedPost' (feeds s)\<rparr>,
                    Response 200 (FeedDoc feedPost')))))"

definition likeFeed ::
  "config \<Rightarrow> io \<Rightarrow> authorization \<Rightarrow> id_param \<Rightarrow> db \<Rightarrow> db \<times> response" where
  "likeFeed cfg t hdr pid s =
     (case authMiddleware cfg t hdr s of
        Inl r \<Rightarrow> (s, r)
      | Inr req_user \<Rightarrow> likeFeedHandler req_user pid s)"

text \<open>
  The text of a comment as the schema stores it: a text as it is, another value as
  mongoose casts it to a text; a value that does not cast makes the save fail.
\<close>

definition castText :: "config \<Rightarrow> json option \<Rightarrow> string option" where
  "castText cfg v =
     (case v of
        None \<Rightarrow> None
      | Some (JStr x) \<Rightarrow> Some x
      | Some w \<Rightarrow> castString cfg w)"

text \<open>
  The handler tests \<open>!text\<close> first, then looks the post up, then pushes the comment,
  which draws the comment's \<open>_id\<close>, and saves; what \<open>findById\<close> or the save throws is
  answered 500.
\<close>

definition commentFeedHandler ::
  "config \<Rightarrow> io \<Rightarrow> user \<Rightarrow> id_param \<Rightarrow> json option \<Rightarrow> db \<Rightarrow> db \<times> response" where
  "commentFeedHandler cfg t req_user pid txt s =
     (if \<not> truthy txt then (s, Response 400 (Error ''Comment text is required''))
      else
        (case pid of
           Uncastable \<Rightarrow> (s, serverError)
         | Castable i \<Rightarrow>
             (case Feed_findById (feeds s) i of
                None \<Rightarrow> (s, Response 404 (Error ''Feed post not found''))
              | Some feedPost \<Rightarrow>
                  (let (cid, s1) = newObjectId s
                   in case castText cfg txt of
                        None \<Rightarrow> (s1, serverError)
                      | Some tx \<Rightarrow>
                          (let c = \<lparr>comment_id = cid, comment_user = user_id req_user,
                                    comment_text = tx, comment_createdAt = now t\<rparr>;
                               feedPost' = feedPost\<lparr>comments := comments feedPost @ [c]\<rparr>
                           in (s1\<lparr>feeds := Feed_update feedPost' (feeds s1)\<rparr>,
                               Response 200 (FeedDoc feedPost')))))))"

definition commentFeed ::
  "config \<Rightarrow> io \<Rightarrow> authorization \<Rightarrow> id_param \<Rightarrow> json option \<Rightarrow> db \<Rightarrow> db \<times> response" where
  "commentFeed cfg t hdr pid txt s =
     (case authMiddleware cfg t hdr s of
        Inl r \<Rightarrow> (s, r)
      | Inr req_user \<Rightarrow> commentFeedHandler cfg t req_user pid txt s)"

section \<open>The router\<close>

datatype request =
    PostUserSignup string "json option" "bool option"
  | PostAdminSignup string "json option"
  | PostUserLogin string "json option"
  | PostAdminLogin string "json option"
  | PostLogout
  | PostSignals authorization "string option" "string option" "string option"
  | GetSignals authorization "string option"
  | PostFeed authorization "string option" "string option"
  | GetFeed authorization "string option"
  | PostFeedLike authorization id_param
  | PostFeedComment authorization id_param "json option"

fun handle :: "config \<Rightarrow> io \<Rightarrow> request \<Rightarrow> db \<Rightarrow> db \<times> response" where
  "handle cfg t (PostUserSignup em pw prem) s = userSignup cfg t em pw prem s"
| "handle cfg t (PostAdminSignup em pw) s = adminSignup cfg t em pw s"
| "handle cfg t (PostUserLogin em pw) s = userLogin cfg t em pw s"
| "handle cfg t (PostAdminLogin em pw) s = adminLogin cfg t em pw s"
| "handle cfg t PostLogout s = logout s"
| "handle cfg t (PostSignals hdr ttl descr ty) s = createSignal cfg t hdr ttl descr ty s"
| "handle cfg t (GetSignals hdr since) s = getSignals cfg t hdr since s"
| "handle cfg t (PostFeed hdr img cap) s = createFeed cfg t hdr img cap s"
| "handle cfg t (GetFeed hdr since) s = getFeed cfg t hdr since s"
| "handle cfg t (PostFeedLike hdr pid) s = likeFeed cfg t hdr pid s"
| "handle cfg t (PostFeedComment hdr pid txt) s = commentFeed cfg t hdr pid txt s"

text \<open>
  The stores the server can be in: the empty store, and what any request at any time
  makes of such a store. The configuration is that of the process and does not change.
\<close>

inductive reachable :: "config \<Rightarrow> db \<Rightarrow> bool" for cfg :: config where
  reachable_empty: "reachable cfg emptyDb"
| reachable_handle: "reachable cfg s \<Longrightarrow> reachable cfg (fst (handle cfg t req s))"

text \<open>A sequence of requests, each with what it reads from the clock and the generator.\<close>

fun run :: "config \<Rightarrow> (io \<times> request) list \<Rightarrow> db \<Rightarrow> db" where
  "run cfg [] s = s"
| "run cfg ((t, req) # rest) s = run cfg rest (fst (handle cfg t req s))"

text \<open>
  The invariant of the store: every user's id was drawn from the generator, and no
  post lists a liker twice.
\<close>

definition db_inv :: "db \<Rightarrow> bool" where
  "db_inv s \<longleftrightarrow>
     (\<forall>u \<in> set (users s). user_id u < nextObjectId s) \<and>
     (\<forall>p \<in> set (feeds s). distinct (likes p))"

section \<open>An example environment\<close>

text \<open>The decimal numeral of an integer, as \<open>String(n)\<close> writes it.\<close>

function showNat :: "nat \<Rightarrow> string" where
  "showNat n =
     (if n < 10 then [''0123456789'' ! n]
      else showNat (n div 10) @ [''0123456789'' ! (n mod 10)])"
  by pat_completeness auto
termination
  by (relation "measure (\<lambda>n. n)") auto

definition showInt :: "int \<Rightarrow> string" where
  "showInt n = (if n < 0 then ''-'' @ showNat (nat (- n)) else showNat (nat n))"

text \<open>
  How the example environment reads a value that is no text: null as the empty text,
  a truth value and a number by their names; an array and an object are read as the
  empty text for the validators and do not cast to a text for the store.
\<close>

fun exampleToString :: "json \<Rightarrow> string" where
  "exampleToString JNull = []"
| "exampleToString (JBool b) = (if b then ''true'' else ''false'')"
| "exampleToString (JNum n) = showInt n"
| "exampleToString (JStr x) = x"
| "exampleToString (JArr xs) = []"
| "exampleToString (JObj kvs) = []"

fun exampleCastString :: "json \<Rightarrow> string option" where
  "exampleCastString JNull = None"
| "exampleCastString (JBool b) = Some (if b then ''true'' else ''false'')"
| "exampleCastString (JNum n) = Some (showInt n)"
| "exampleCastString (JStr x) = Some x"
| "exampleCastString (JArr xs) = None"
| "exampleCastString (JObj kvs) = None"

text \<open>
  A configuration to run the routes on: a secret, an address test that looks for the
  at sign, a hash that joins salt and password, and a date parser that knows one date.
\<close>

definition exampleConfig :: config where
  "exampleConfig =
     \<lparr>JWT_SECRET = Some ''s3cret'',
      isEmail = (\<lambda>e. CHR ''@'' \<in> set e),
      bcrypt_hash = (\<lambda>pw sl. sl @ ''$'' @ pw),
      bcrypt_compare = (\<lambda>pw h. dropWhile (\<lambda>c. c \<noteq> CHR ''$'') h = ''$'' @ pw),
      parseDate = (\<lambda>txt. if txt = ''1970-01-01T00:00:00.005Z'' then Some 5 else None),
      validatorToString = exampleToString,
      castString = exampleCastString\<rparr>"

definition at :: "int \<Rightarrow> io" where
  "at ms = \<lparr>now = ms, salt = ''NaCl''\<rparr>"

text \<open>
  A run of the server from the empty store: a user and an administrator sign up, the
  administrator posts a free and a premium signal and a feed post, and the user likes
  the post. The tokens are the ones the two signups answer with.
\<close>

definition userToken :: jwt where
  "userToken = Jwt 0 0 86400 ''s3cret''"

definition adminToken :: jwt where
  "adminToken = Jwt 1 1 86401 ''s3cret''"

definition exampleRequests :: "(io \<times> request) list" where
  "exampleRequests =
     [(at 0, PostUserSignup ''a@x.com'' (Some (JStr ''abcdef'')) None),
      (at 1000, PostAdminSignup ''root@x.com'' (Some (JStr ''hunter22''))),
      (at 2000, PostSignals (Bearer adminToken) (Some ''Buy'') (Some ''now'') (Some ''free'')),
      (at 3000, PostSignals (Bearer adminToken) (Some ''Sell'') None (Some ''premium'')),
      (at 4000, PostFeed (Bearer adminToken) (Some ''http://img/1.png'') (Some ''chart'')),
      (at 5000, PostFeedLike (Bearer userToken) (Castable 4))]"

definition exampleUser :: user where
  "exampleUser = \<lparr>user_id = 0, email = ''a@x.com'', password = ''NaCl$abcdef'',
     isPremium = False, role = RoleUser, user_createdAt = 0\<rparr>"

definition exampleAdmin :: user where
  "exampleAdmin = \<lparr>user_id = 1, email = ''root@x.com'', password = ''NaCl$hunter22'',
     isPremium = False, role = RoleAdmin, user_createdAt = 1000\<rparr>"

definition freeSignal :: signal where
  "freeSignal = \<lparr>signal_id = 2, title = Some ''Buy'', description = Some ''now'',
     signal_type = Free, signal_createdAt = 2000, signal_createdBy = 1\<rparr>"

definition premiumSignal :: signal where
  "premiumSignal = \<lparr>signal_id = 3, title = Some ''Sell'', description = None,
     signal_type = Premium, signal_createdAt = 3000, signal_createdBy = 1\<rparr>"

definition examplePost :: feed where
  "examplePost = \<lparr>feed_id = 4, imageUrl = ''http://img/1.png'', caption = ''chart'',
     likes = [0], comments = [], feed_createdAt = 4000, feed_createdBy = 1\<rparr>"

definition exampleDb :: db where
  "exampleDb = \<lparr>users = [exampleUser, exampleAdmin], signals = [freeSignal, premiumSignal],
     feeds = [examplePost], nextObjectId = 5\<rparr>"

section \<open>Lemmas about the store\<close>

lemma find_append_Some: "find P xs = Some x \<Longrightarrow> find P (xs @ ys) = Some x"
  by (induction xs) auto

lemma find_append_None: "find P xs = None \<Longrightarrow> find P (xs @ ys) = find P ys"
  by (induction xs) auto

lemma indexOf_None: "indexOf ls x = None \<longleftrightarrow> x \<notin> set ls"
  by (induction ls) auto

lemma indexOf_Some_splice1: "indexOf ls x = Some i \<Longrightarrow> splice1 i ls = remove1 x ls"
proof (induction ls arbitrary: i)
  case Nil
  then show ?case by simp
next
  case (Cons y ys)
  show ?case
  proof (cases "y = x")
    case True
    with Cons.prems show ?thesis by (simp add: splice1_def)
  next
    case False
    with Cons.prems obtain j where j: "indexOf ys x = Some j" "i = Suc j" by auto
    from Cons.IH [OF j(1)] False j(2) show ?thesis by (simp add: splice1_def)
  qed
qed

lemma toggleLike_eq: "toggleLike uid ls = (if uid \<in> set ls then remove1 uid ls else ls @ [uid])"
proof (cases "indexOf ls uid")
  case None
  then have "uid \<notin> set ls" by (simp add: indexOf_None)
  with None show ?thesis by (simp add: toggleLike_def)
next
  case (Some i)
  then have "uid \<in> set ls" using indexOf_None [of ls uid] by auto
  with Some show ?thesis by (simp add: toggleLike_def indexOf_Some_splice1)
qed

lemma distinct_toggleLike: "distinct ls \<Longrightarrow> distinct (toggleLike uid ls)"
  by (simp add: toggleLike_eq)

lemma set_Feed_update: "set (Feed_update p ps) \<subseteq> insert p (set ps)"
  by (induction ps) auto

lemma length_Feed_update: "length (Feed_update p ps) = length ps"
  by (induction ps) auto

lemma find_Some_mem: "find P xs = Some x \<Longrightarrow> x \<in> set xs"
  by (induction xs) (auto split: if_splits)

lemma Feed_findById_mem: "Feed_findById ps i = Some p \<Longrightarrow> p \<in> set ps \<and> feed_id p = i"
  unfolding Feed_findById_def by (induction ps) (auto split: if_splits)

lemma Feed_findById_update_same:
  "Feed_findById ps i = Some p \<Longrightarrow> feed_id p' = i \<Longrightarrow> Feed_findById (Feed_update p' ps) i = Some p'"
  unfolding Feed_findById_def by (induction ps) (auto split: if_splits)

lemma Feed_findById_update_other:
  "j \<noteq> feed_id p' \<Longrightarrow> Feed_findById (Feed_update p' ps) j = Feed_findById ps j"
  unfolding Feed_findById_def by (induction ps) auto

lemma likeFeedHandler_inv: "db_inv s \<Longrightarrow> db_inv (fst (likeFeedHandler u pid s))"
proof -
  assume inv: "db_inv s"
  show ?thesis
  proof (cases pid)
    case Uncastable
    with inv show ?thesis by (simp add: likeFeedHandler_def)
  next
    case (Castable i)
    show ?thesis
    proof (cases "Feed_findById (feeds s) i")
      case None
      with Castable inv show ?thesis by (simp add: likeFeedHandler_def)
    next
      case (Some p)
      then have "p \<in> set (feeds s)" by (simp add: Feed_findById_mem)
      with inv have "distinct (likes p)" by (simp add: db_inv_def)
      then have d: "distinct (toggleLike (user_id u) (likes p))" by (rule distinct_toggleLike)
      have "\<forall>q \<in> set (Feed_update (p\<lparr>likes := toggleLike (user_id u) (likes p)\<rparr>) (feeds s)).
              distinct (likes q)"
        using set_Feed_update [of "p\<lparr>likes := toggleLike (user_id u) (likes p)\<rparr>" "feeds s"] d inv
        by (auto simp: db_inv_def)
      with Castable Some inv show ?thesis by (simp add: likeFeedHandler_def db_inv_def Let_def)
    qed
  qed
qed

lemma commentFeedHandler_inv:
  "db_inv s \<Longrightarrow> db_inv (fst (commentFeedHandler cfg t u pid ctext s))"
proof -
  assume inv: "db_inv s"
  show ?thesis
  proof (cases "truthy ctext")
    case False
    with inv show ?thesis by (simp add: commentFeedHandler_def)
  next
    case True
    show ?thesis
    proof (cases pid)
      case Uncastable
      with True inv show ?thesis by (simp add: commentFeedHandler_def)
    next
      case (Castable i)
      show ?thesis
      proof (cases "Feed_findById (feeds s) i")
        case None
        with True Castable inv show ?thesis by (simp add: commentFeedHandler_def)
      next
        case (Some p)
        then have "p \<in> set (feeds s)" by (simp add: Feed_findById_mem)
        with inv have d: "distinct (likes p)" by (simp add: db_inv_def)
        have "\<forall>q \<in> set (Feed_update (p\<lparr>comments := comments p @ [c]\<rparr>) (feeds s)).
                distinct (likes q)" for c
          using set_Feed_update [of "p\<lparr>comments := comments p @ [c]\<rparr>" "feeds s"] d inv
          by (auto simp: db_inv_def)
        with True Castable Some inv show ?thesis
          by (auto simp: commentFeedHandler_def db_inv_def Let_def newObjectId_def
              split: option.splits)
      qed
    qed
  qed
qed

lemma likeFeed_inv: "db_inv s \<Longrightarrow> db_inv (fst (likeFeed cfg t hdr pid s))"
  by (simp add: likeFeed_def likeFeedHandler_inv split: sum.splits)

lemma commentFeed_inv: "db_inv s \<Longrightarrow> db_inv (fst (commentFeed cfg t hdr pid ctext s))"
  by (simp add: commentFeed_def commentFeedHandler_inv split: sum.splits)

lemma userSignup_inv: "db_inv s \<Longrightarrow> db_inv (fst (userSignup cfg t em pw prem s))"
  by (auto simp: userSignup_def db_inv_def Let_def newObjectId_def User_save_def serverError_def
      split: option.splits if_splits prod.splits)

lemma adminSignup_inv: "db_inv s \<Longrightarrow> db_inv (fst (adminSignup cfg t em pw s))"
  by (auto simp: adminSignup_def db_inv_def Let_def newObjectId_def User_save_def serverError_def
      split: option.splits if_splits prod.splits)

lemma userLogin_db: "fst (userLogin cfg t em pw s) = s"
  by (auto simp: userLogin_def Let_def split: option.splits)

lemma adminLogin_db: "fst (adminLogin cfg t em pw s) = s"
  by (auto simp: adminLogin_def Let_def split: option.splits)

lemma getSignalsHandler_db: "fst (getSignalsHandler cfg u since s) = s"
  by (auto simp: getSignalsHandler_def Let_def split: option.splits)

lemma getSignals_db: "fst (getSignals cfg t hdr since s) = s"
  by (simp add: getSignals_def getSignalsHandler_db split: sum.splits)

lemma getFeed_db: "fst (getFeed cfg t hdr since s) = s"
  by (auto simp: getFeed_def getFeedHandler_def split: option.splits sum.splits)

lemma createSignal_inv: "db_inv s \<Longrightarrow> db_inv (fst (createSignal cfg t hdr ttl descr ty s))"
  by (auto simp: createSignal_def createSignalHandler_def db_inv_def Let_def newObjectId_def
      split: option.splits sum.splits prod.splits)

lemma createFeed_inv: "db_inv s \<Longrightarrow> db_inv (fst (createFeed cfg t hdr img cap s))"
  by (auto simp: createFeed_def createFeedHandler_def db_inv_def Let_def newObjectId_def
      split: option.splits sum.splits prod.splits)

lemma handle_inv: "db_inv s \<Longrightarrow> db_inv (fst (handle cfg t req s))"
  by (cases req)
    (simp_all add: userSignup_inv adminSignup_inv userLogin_db adminLogin_db logout_def
      createSignal_inv getSignals_db createFeed_inv getFeed_db likeFeed_inv commentFeed_inv)

lemma emptyDb_inv: "db_inv emptyDb"
  by (simp add: db_inv_def emptyDb_def)

lemma reachable_inv: "reachable cfg s \<Longrightarrow> db_inv s"
  by (induction rule: reachable.induct) (simp_all add: emptyDb_inv handle_inv)

lemma reachable_run: "reachable cfg s \<Longrightarrow> reachable cfg (run cfg rs s)"
proof (induction rs arbitrary: s)
  case Nil
  then show ?case by simp
next
  case (Cons r rs)
  obtain t req where r: "r = (t, req)" by (cases r)
  from Cons.prems have "reachable cfg (fst (handle cfg t req s))" by (rule reachable_handle)
  then show ?case using Cons.IH r by simp
qed

text \<open>No route removes or rewrites a user: a user found by id stays the one found.\<close>

lemma handle_users: "\<exists>us. users (fst (handle cfg t req s)) = users s @ us"
proof (cases req)
  case (PostUserSignup em pw prem)
  then show ?thesis
    by (auto simp: userSignup_def Let_def newObjectId_def User_save_def
        split: option.splits if_splits)
next
  case (PostAdminSignup em pw)
  then show ?thesis
    by (auto simp: adminSignup_def Let_def newObjectId_def User_save_def
        split: option.splits if_splits)
next
  case (PostSignals hdr ttl descr ty)
  then show ?thesis
    by (auto simp: createSignal_def createSignalHandler_def Let_def newObjectId_def
        split: option.splits sum.splits)
next
  case (PostFeed hdr img cap)
  then show ?thesis
    by (auto simp: createFeed_def createFeedHandler_def Let_def newObjectId_def
        split: option.splits sum.splits)
next
  case (PostFeedLike hdr pid)
  then show ?thesis
    by (auto simp: likeFeed_def likeFeedHandler_def Let_def
        split: option.splits sum.splits id_param.splits)
next
  case (PostFeedComment hdr pid ctext)
  then show ?thesis
    by (auto simp: commentFeed_def commentFeedHandler_def Let_def newObjectId_def
        split: option.splits sum.splits id_param.splits)
qed (simp_all add: userLogin_db adminLogin_db logout_def getSignals_db getFeed_db)

lemma handle_findById:
  "User_findById (users s) i = Some u \<Longrightarrow> User_findById (users (fst (handle cfg t req s))) i = Some u"
proof -
  assume f: "User_findById (users s) i = Some u"
  obtain us where "users (fst (handle cfg t req s)) = users s @ us"
    using handle_users by blast
  with f show ?thesis by (simp add: User_findById_def find_append_Some)
qed

lemma run_findById:
  "User_findById (users s) i = Some u \<Longrightarrow> User_findById (users (run cfg rs s)) i = Some u"
proof (induction rs arbitrary: s)
  case Nil
  then show ?case by simp
next
  case (Cons r rs)
  obtain t req where r: "r = (t, req)" by (cases r)
  from Cons.prems have "User_findById (users (fst (handle cfg t req s))) i = Some u"
    by (rule handle_findById)
  then show ?case using Cons.IH r by simp
qed

section \<open>The example run\<close>

lemmas example_defs = exampleConfig_def at_def emptyDb_def userToken_def adminToken_def
  exampleUser_def exampleAdmin_def freeSignal_def premiumSignal_def examplePost_def exampleDb_def

lemmas route_defs = userSignup_def adminSignup_def userLogin_def adminLogin_def
  createSignal_def getSignals_def createFeed_def getFeed_def likeFeed_def commentFeed_def
  createSignalHandler_def getSignalsHandler_def createFeedHandler_def getFeedHandler_def
  likeFeedHandler_def commentFeedHandler_def
  authMiddleware_def adminMiddleware_def validateSignup_def validateLogin_def
  jwt_sign_def jwt_verify_def newObjectId_def User_save_def User_findById_def
  User_findOne_email_def User_findOne_email_role_def Feed_findById_def parseSignalType_def
  toggleLike_def splice1_def Let_def jsString_def truthy_def castText_def fieldString_def

lemma exampleDb_run: "run exampleConfig exampleRequests emptyDb = exampleDb"
  by (simp add: exampleRequests_def example_defs route_defs)

lemma exampleDb_reachable: "reachable exampleConfig exampleDb"
  using reachable_run [OF reachable_empty, of exampleConfig exampleRequests]
  by (simp add: exampleDb_run)

lemma auth_exampleUser:
  "authMiddleware exampleConfig (at 6000) (Bearer userToken) exampleDb = Inr exampleUser"
  by (simp add: example_defs route_defs)

lemma auth_exampleAdmin:
  "authMiddleware exampleConfig (at 6000) (Bearer adminToken) exampleDb = Inr exampleAdmin"
  by (simp add: example_defs route_defs)

section \<open>Signup and authentication\<close>

text \<open>What a signup that answers 201 has done: the payload was valid, the secret is set,
  one user was appended under the next id, and the token is signed for that id.\<close>

lemma jsString_Some: "jsString v = Some x \<longleftrightarrow> v = Some (JStr x)"
  by (auto simp: jsString_def split: option.splits json.splits)

lemma userSignup_201:
  assumes "userSignup cfg t em pw prem s = (s', Response 201 b)"
  shows "\<exists>k pwText. JWT_SECRET cfg = Some k \<and> k \<noteq> [] \<and> pw = Some (JStr pwText) \<and>
     isEmail cfg em \<and> 6 \<le> length pwText \<and> em \<notin> set (map email (users s)) \<and>
     s' = s\<lparr>nextObjectId := Suc (nextObjectId s),
            users := users s @ [\<lparr>user_id = nextObjectId s, email = em,
              password = bcrypt_hash cfg pwText (salt t),
              isPremium = (case prem of None \<Rightarrow> False | Some f \<Rightarrow> f),
              role = RoleUser, user_createdAt = now t\<rparr>]\<rparr> \<and>
     b = UserAuth (Jwt (nextObjectId s) (now t div 1000) (now t div 1000 + 86400) k)
           (nextObjectId s) em prem"
proof -
  from assms obtain pwText where p: "pw = Some (JStr pwText)"
    by (auto simp: userSignup_def Let_def serverError_def jsString_Some
        split: option.splits if_splits)
  from assms show ?thesis unfolding p
    by (auto simp: userSignup_def validateSignup_def fieldString_def jsString_def Let_def
        newObjectId_def User_save_def serverError_def jwt_sign_def
        split: option.splits if_splits)
qed

text \<open>And a valid payload, its password a text, is answered 201 whenever the secret is set.\<close>

lemma userSignup_valid:
  assumes "isEmail cfg em" and "6 \<le> length pw" and "em \<notin> set (map email (users s))"
    and "JWT_SECRET cfg = Some k" and "k \<noteq> []"
  shows "\<exists>s' tok. userSignup cfg t em (Some (JStr pw)) prem s =
           (s', Response 201 (UserAuth tok (nextObjectId s) em prem))"
proof -
  from assms(3) have "User_findOne_email (users s) em = None"
    unfolding User_findOne_email_def by (induction "users s" arbitrary: s) (auto simp: find_None_iff)
  with assms show ?thesis
    by (simp add: userSignup_def validateSignup_def fieldString_def jsString_def Let_def
        newObjectId_def User_save_def jwt_sign_def)
qed

lemma find_fresh: "\<forall>u \<in> set us. f u < (n::nat) \<Longrightarrow> find (\<lambda>u. f u = n) us = None"
  by (induction us) auto

text \<open>
  C1. The token of a user signup answered 201, presented to \<open>authMiddleware\<close> before it
  expires (a day after it was issued), at once or after any further requests, passes
  and resolves to the user that the signup appended to the store: the user with the id
  and email of the response.
\<close>

theorem signup_token_authenticates:
  assumes reach: "reachable cfg s"
    and signup: "userSignup cfg t em pw prem s = (s', Response 201 (UserAuth tok uid em' prem'))"
    and fresh: "now t' div 1000 < now t div 1000 + 86400"
  shows "\<exists>u. users s' = users s @ [u] \<and> user_id u = uid \<and> email u = em \<and> role u = RoleUser \<and>
     authMiddleware cfg t' (Bearer tok) (run cfg rs s') = Inr u"
proof -
  from userSignup_201 [OF signup] obtain k pwText where
    k: "JWT_SECRET cfg = Some k" "k \<noteq> []" and
    s0: "s' = s\<lparr>nextObjectId := Suc (nextObjectId s),
            users := users s @ [\<lparr>user_id = nextObjectId s, email = em,
              password = bcrypt_hash cfg pwText (salt t),
              isPremium = (case prem of None \<Rightarrow> False | Some f \<Rightarrow> f),
              role = RoleUser, user_createdAt = now t\<rparr>]\<rparr>" and
    b: "tok = Jwt (nextObjectId s) (now t div 1000) (now t div 1000 + 86400) k" "uid = nextObjectId s"
    by auto
  define u where "u = \<lparr>user_id = nextObjectId s, email = em,
              password = bcrypt_hash cfg pwText (salt t),
              isPremium = (case prem of None \<Rightarrow> False | Some f \<Rightarrow> f),
              role = RoleUser, user_createdAt = now t\<rparr>"
  from s0 have s': "s' = s\<lparr>nextObjectId := Suc (nextObjectId s), users := users s @ [u]\<rparr>"
    by (simp add: u_def)
  from reach have "db_inv s" by (rule reachable_inv)
  then have "find (\<lambda>v. user_id v = nextObjectId s) (users s) = None"
    by (simp add: db_inv_def find_fresh)
  then have "User_findById (users s') uid = Some u"
    by (simp add: User_findById_def s' b find_append_None u_def)
  then have found: "User_findById (users (run cfg rs s')) uid = Some u"
    by (rule run_findById)
  have "jwt_verify tok (JWT_SECRET cfg) (now t') = Some uid"
    using k b fresh by (simp add: jwt_verify_def)
  with found have "authMiddleware cfg t' (Bearer tok) (run cfg rs s') = Inr u"
    by (simp add: authMiddleware_def)
  moreover have "users s' = users s @ [u]" by (simp add: s')
  moreover have "user_id u = uid" "email u = em" "role u = RoleUser" by (simp_all add: u_def b)
  ultimately show ?thesis by blast
qed

theorem signup_token_authenticates_witness:
  "reachable exampleConfig emptyDb \<and>
   userSignup exampleConfig (at 0) ''a@x.com'' (Some (JStr ''abcdef'')) None emptyDb =
     (\<lparr>users = [\<lparr>user_id = 0, email = ''a@x.com'', password = ''NaCl$abcdef'',
                  isPremium = False, role = RoleUser, user_createdAt = 0\<rparr>],
       signals = [], feeds = [], nextObjectId = 1\<rparr>,
      Response 201 (UserAuth (Jwt 0 0 86400 ''s3cret'') 0 ''a@x.com'' None)) \<and>
   now (at 5000) div 1000 < now (at 0) div 1000 + 86400 \<and>
   authMiddleware exampleConfig (at 5000) (Bearer (Jwt 0 0 86400 ''s3cret''))
     (run exampleConfig [(at 1000, PostAdminSignup ''root@x.com'' (Some (JStr ''hunter22'')))]
        \<lparr>users = [\<lparr>user_id = 0, email = ''a@x.com'', password = ''NaCl$abcdef'',
                  isPremium = False, role = RoleUser, user_createdAt = 0\<rparr>],
         signals = [], feeds = [], nextObjectId = 1\<rparr>) =
     Inr \<lparr>user_id = 0, email = ''a@x.com'', password = ''NaCl$abcdef'',
          isPremium = False, role = RoleUser, user_createdAt = 0\<rparr>"
proof -
  have r: "reachable exampleConfig emptyDb" by (rule reachable_empty)
  have e: "userSignup exampleConfig (at 0) ''a@x.com'' (Some (JStr ''abcdef'')) None emptyDb =
     (\<lparr>users = [\<lparr>user_id = 0, email = ''a@x.com'', password = ''NaCl$abcdef'',
                  isPremium = False, role = RoleUser, user_createdAt = 0\<rparr>],
       signals = [], feeds = [], nextObjectId = 1\<rparr>,
      Response 201 (UserAuth (Jwt 0 0 86400 ''s3cret'') 0 ''a@x.com'' None))"
    by (simp add: userSignup_def validateSignup_def fieldString_def jsString_def
        exampleConfig_def at_def emptyDb_def User_findOne_email_def newObjectId_def
        User_save_def jwt_sign_def)
  have f: "now (at 5000) div 1000 < now (at 0) div 1000 + 86400" by (simp add: at_def)
  from signup_token_authenticates
    [OF r e f, of "[(at 1000, PostAdminSignup ''root@x.com'' (Some (JStr ''hunter22'')))]"]
  show ?thesis using r e f by (auto simp: emptyDb_def)
qed

text \<open>
  C2. A user signup whose body leaves \<open>isPremium\<close> out, on the empty store: the user is
  stored with role \<open>user\<close> and \<open>isPremium = false\<close>, but the body of the 201 answer
  carries the \<open>isPremium\<close> of the request, which is undefined, and not the stored
  \<open>false\<close>. The login of the same user answers with the stored flag.
\<close>

theorem signup_omitted_flag_response:
  "userSignup exampleConfig (at 0) ''a@x.com'' (Some (JStr ''abcdef'')) None emptyDb =
     (\<lparr>users = [exampleUser], signals = [], feeds = [], nextObjectId = 1\<rparr>,
      Response 201 (UserAuth userToken 0 ''a@x.com'' None)) \<and>
   isPremium exampleUser = False \<and> role exampleUser = RoleUser \<and>
   userLogin exampleConfig (at 0) ''a@x.com'' (Some (JStr ''abcdef''))
       \<lparr>users = [exampleUser], signals = [], feeds = [], nextObjectId = 1\<rparr> =
     (\<lparr>users = [exampleUser], signals = [], feeds = [], nextObjectId = 1\<rparr>,
      Response 200 (UserAuth userToken 0 ''a@x.com'' (Some False)))"
  by (simp add: example_defs route_defs)

section \<open>Duplicate emails\<close>

lemma find_email_Some: "em \<in> set (map email us) \<Longrightarrow> \<exists>u. find (\<lambda>u. email u = em) us = Some u"
  by (induction us) auto

text \<open>
  C3. A signup, on the user or on the admin endpoint, with an email that some stored
  user has, whatever that user's role: the answer has status 400 and the store is
  unchanged. The body is the error \<open>Email already exists\<close> when the payload passes the
  validation, and the list of validation errors otherwise.
\<close>

theorem signup_duplicate_email:
  assumes "em \<in> set (map email (users s))"
  shows "userSignup cfg t em pw prem s =
           (s, Response 400 (if validateSignup cfg em pw = [] then Error ''Email already exists''
                             else ValidationErrors (validateSignup cfg em pw))) \<and>
         adminSignup cfg t em pw s =
           (s, Response 400 (if validateSignup cfg em pw = [] then Error ''Email already exists''
                             else ValidationErrors (validateSignup cfg em pw)))"
proof -
  from assms obtain u where "User_findOne_email (users s) em = Some u"
    unfolding User_findOne_email_def using find_email_Some by blast
  then show ?thesis by (simp add: userSignup_def adminSignup_def Let_def)
qed

theorem signup_duplicate_email_witness:
  "''root@x.com'' \<in> set (map email (users exampleDb)) \<and>
   ''a@x.com'' \<in> set (map email (users exampleDb)) \<and>
   userSignup exampleConfig (at 6000) ''root@x.com'' (Some (JStr ''abcdef'')) (Some True) exampleDb =
     (exampleDb, Response 400 (Error ''Email already exists'')) \<and>
   adminSignup exampleConfig (at 6000) ''a@x.com'' (Some (JStr ''abcdef'')) exampleDb =
     (exampleDb, Response 400 (Error ''Email already exists'')) \<and>
   userSignup exampleConfig (at 6000) ''a@x.com'' (Some (JStr ''abc'')) None exampleDb =
     (exampleDb, Response 400 (ValidationErrors [''Password must be at least 6 characters'']))"
proof -
  have a: "''root@x.com'' \<in> set (map email (users exampleDb))"
    and b: "''a@x.com'' \<in> set (map email (users exampleDb))"
    by (simp_all add: example_defs)
  from signup_duplicate_email [OF a, of exampleConfig "at 6000" "Some (JStr ''abcdef'')" "Some True"]
    signup_duplicate_email [OF b, of exampleConfig "at 6000" "Some (JStr ''abcdef'')" None]
    signup_duplicate_email [OF b, of exampleConfig "at 6000" "Some (JStr ''abc'')" None]
  show ?thesis using a b by (simp add: validateSignup_def fieldString_def exampleConfig_def)
qed

section \<open>Login failures\<close>

text \<open>
  C4, as stated, fails, in two ways. A login request is validated before the store is
  read: a request with an empty password is answered 400 even though no user has its
  email. And the password is not tested to be a text: the number 123456 passes the
  validation, and then the request is answered 500 when a user with role \<open>user\<close> has
  the email, where \<open>bcrypt.compare\<close> throws, and 401 when none has it, so the two
  answers differ.
\<close>

theorem login_failure_status_counterexample:
  "User_findOne_email_role (users emptyDb) ''a@x.com'' RoleUser = None \<and>
   userLogin exampleConfig (at 0) ''a@x.com'' (Some (JStr [])) emptyDb =
     (emptyDb, Response 400 (ValidationErrors [''Password is required''])) \<and>
   validateLogin exampleConfig ''a@x.com'' (Some (JNum 123456)) = [] \<and>
   User_findOne_email_role (users exampleDb) ''a@x.com'' RoleUser = Some exampleUser \<and>
   userLogin exampleConfig (at 6000) ''a@x.com'' (Some (JNum 123456)) exampleDb =
     (exampleDb, Response 500 (Error ''Server error'')) \<and>
   User_findOne_email_role (users exampleDb) ''nobody@x.com'' RoleUser = None \<and>
   userLogin exampleConfig (at 6000) ''nobody@x.com'' (Some (JNum 123456)) exampleDb =
     (exampleDb, Response 401 (Error ''Invalid credentials''))"
  by (simp add: example_defs route_defs serverError_def showInt_def)

lemma find_None_role:
  "\<forall>u \<in> set us. email u = em \<longrightarrow> role u = RoleAdmin \<Longrightarrow>
   find (\<lambda>u. email u = em \<and> role u = RoleUser) us = None"
  by (induction us) auto

text \<open>
  C4, amended. For a user login that passes the validation (a valid email, a password
  that the validator does not read as empty): when no stored user with role \<open>user\<close> has
  the email (so also when only an administrator has it), whatever the password is, or
  when the password is a text that does not match the hash of the user found, the
  answer is 401 with the body \<open>Invalid credentials\<close>, the same in both cases, and the
  store is unchanged.
\<close>

theorem login_invalid_credentials:
  assumes "validateLogin cfg em pw = []"
    and "(\<forall>u \<in> set (users s). email u = em \<longrightarrow> role u = RoleAdmin) \<or>
         (\<exists>u pwText. User_findOne_email_role (users s) em RoleUser = Some u \<and>
              pw = Some (JStr pwText) \<and> \<not> bcrypt_compare cfg pwText (password u))"
  shows "userLogin cfg t em pw s = (s, Response 401 (Error ''Invalid credentials''))"
  using assms
  by (auto simp: userLogin_def User_findOne_email_role_def find_None_role jsString_def)

theorem login_invalid_credentials_witness:
  "validateLogin exampleConfig ''root@x.com'' (Some (JStr ''hunter22'')) = [] \<and>
   validateLogin exampleConfig ''a@x.com'' (Some (JStr ''wrong'')) = [] \<and>
   User_findOne_email_role (users exampleDb) ''a@x.com'' RoleUser = Some exampleUser \<and>
   \<not> bcrypt_compare exampleConfig ''wrong'' (password exampleUser) \<and>
   bcrypt_compare exampleConfig ''hunter22'' (password exampleAdmin) \<and>
   userLogin exampleConfig (at 6000) ''root@x.com'' (Some (JStr ''hunter22'')) exampleDb =
     (exampleDb, Response 401 (Error ''Invalid credentials'')) \<and>
   userLogin exampleConfig (at 6000) ''a@x.com'' (Some (JStr ''wrong'')) exampleDb =
     (exampleDb, Response 401 (Error ''Invalid credentials''))"
proof -
  have v1: "validateLogin exampleConfig ''root@x.com'' (Some (JStr ''hunter22'')) = []"
    and v2: "validateLogin exampleConfig ''a@x.com'' (Some (JStr ''wrong'')) = []"
    by (simp_all add: validateLogin_def fieldString_def exampleConfig_def)
  have h1: "(\<forall>u \<in> set (users exampleDb). email u = ''root@x.com'' \<longrightarrow> role u = RoleAdmin) \<or>
         (\<exists>u pwText. User_findOne_email_role (users exampleDb) ''root@x.com'' RoleUser = Some u \<and>
              Some (JStr ''hunter22'') = Some (JStr pwText) \<and>
              \<not> bcrypt_compare exampleConfig pwText (password u))"
    by (simp add: example_defs)
  have f: "User_findOne_email_role (users exampleDb) ''a@x.com'' RoleUser = Some exampleUser"
    and c: "\<not> bcrypt_compare exampleConfig ''wrong'' (password exampleUser)"
    and c': "bcrypt_compare exampleConfig ''hunter22'' (password exampleAdmin)"
    by (simp_all add: example_defs User_findOne_email_role_def)
  then have h2: "(\<forall>u \<in> set (users exampleDb). email u = ''a@x.com'' \<longrightarrow> role u = RoleAdmin) \<or>
         (\<exists>u pwText. User_findOne_email_role (users exampleDb) ''a@x.com'' RoleUser = Some u \<and>
              Some (JStr ''wrong'') = Some (JStr pwText) \<and>
              \<not> bcrypt_compare exampleConfig pwText (password u))"
    by blast
  from login_invalid_credentials [OF v1 h1, of "at 6000"]
    login_invalid_credentials [OF v2 h2, of "at 6000"]
  show ?thesis using v1 v2 f c c' by simp
qed

section \<open>Creating a feed post needs the admin role\<close>

text \<open>
  C8. A request to create a feed post that \<open>authMiddleware\<close> resolves to a user whose
  role is not \<open>admin\<close> is answered 403, and the store, so the list of feed posts, stays
  as it was.
\<close>

theorem createFeed_forbidden:
  assumes "authMiddleware cfg t hdr s = Inr u" and "role u \<noteq> RoleAdmin"
  shows "createFeed cfg t hdr img cap s = (s, Response 403 (Error ''Admin access required''))"
  using assms by (simp add: createFeed_def adminMiddleware_def)

theorem createFeed_forbidden_witness:
  "authMiddleware exampleConfig (at 6000) (Bearer userToken) exampleDb = Inr exampleUser \<and>
   role exampleUser \<noteq> RoleAdmin \<and>
   createFeed exampleConfig (at 6000) (Bearer userToken) (Some ''http://img/2.png'')
       (Some ''mine'') exampleDb =
     (exampleDb, Response 403 (Error ''Admin access required'')) \<and>
   feeds exampleDb = [examplePost]"
proof -
  have r: "role exampleUser \<noteq> RoleAdmin" by (simp add: exampleUser_def)
  from createFeed_forbidden [OF auth_exampleUser r]
  show ?thesis using auth_exampleUser r by (simp add: exampleDb_def)
qed

section \<open>Listing signals\<close>



lemma sinceQuery_cases:
  "sinceQuery cfg since = None \<longleftrightarrow> since = None \<or> since = Some []"
  "sinceQuery cfg since = Some r \<longleftrightarrow> (\<exists>txt. since = Some txt \<and> txt \<noteq> [] \<and> parseDate cfg txt = r)"
  by (auto simp: sinceQuery_def split: option.splits)





section \<open>Toggling a like\<close>

lemma likeFeedHandler_found:
  assumes "Feed_findById (feeds s) i = Some p"
  shows "likeFeedHandler u (Castable i) s =
           (s\<lparr>feeds := Feed_update (p\<lparr>likes := toggleLike (user_id u) (likes p)\<rparr>) (feeds s)\<rparr>,
            Response 200 (FeedDoc (p\<lparr>likes := toggleLike (user_id u) (likes p)\<rparr>)))"
    and "Feed_findById (feeds (fst (likeFeedHandler u (Castable i) s))) i =
           Some (p\<lparr>likes := toggleLike (user_id u) (likes p)\<rparr>)"
proof -
  show 1: "likeFeedHandler u (Castable i) s =
           (s\<lparr>feeds := Feed_update (p\<lparr>likes := toggleLike (user_id u) (likes p)\<rparr>) (feeds s)\<rparr>,
            Response 200 (FeedDoc (p\<lparr>likes := toggleLike (user_id u) (likes p)\<rparr>)))"
    using assms by (simp add: likeFeedHandler_def Let_def)
  from assms have "feed_id p = i" by (simp add: Feed_findById_mem)
  then have "feed_id (p\<lparr>likes := toggleLike (user_id u) (likes p)\<rparr>) = i" by simp
  from Feed_findById_update_same [OF assms this] show
    "Feed_findById (feeds (fst (likeFeedHandler u (Castable i) s))) i =
           Some (p\<lparr>likes := toggleLike (user_id u) (likes p)\<rparr>)"
    by (simp add: 1)
qed

lemma set_toggleLike_twice:
  "distinct ls \<Longrightarrow> set (toggleLike uid (toggleLike uid ls)) = set ls"
  by (auto simp: toggleLike_eq)

text \<open>
  C6. On a store the server can reach, for a post that exists (so under an id that
  casts) and any caller: the like handler answers with the post whose likes are those
  before without the caller's id when it was among them, and with the id appended when
  it was not, and stores that post; run a second time for the same caller it answers
  with, and stores, a post whose likes have the members they had before the first run.
\<close>

theorem toggleLike_twice:
  assumes reach: "reachable cfg s"
    and found: "Feed_findById (feeds s) i = Some p"
  shows "\<exists>s1 p1 s2 p2.
    likeFeedHandler u (Castable i) s = (s1, Response 200 (FeedDoc p1)) \<and>
    Feed_findById (feeds s1) i = Some p1 \<and>
    likes p1 = (if user_id u \<in> set (likes p) then remove1 (user_id u) (likes p)
                else likes p @ [user_id u]) \<and>
    (user_id u \<in> set (likes p1) \<longleftrightarrow> user_id u \<notin> set (likes p)) \<and>
    likeFeedHandler u (Castable i) s1 = (s2, Response 200 (FeedDoc p2)) \<and>
    Feed_findById (feeds s2) i = Some p2 \<and>
    set (likes p2) = set (likes p)"
proof -
  define p1 where "p1 = p\<lparr>likes := toggleLike (user_id u) (likes p)\<rparr>"
  define s1 where "s1 = s\<lparr>feeds := Feed_update p1 (feeds s)\<rparr>"
  define p2 where "p2 = p1\<lparr>likes := toggleLike (user_id u) (likes p1)\<rparr>"
  define s2 where "s2 = s1\<lparr>feeds := Feed_update p2 (feeds s1)\<rparr>"
  from reach have "db_inv s" by (rule reachable_inv)
  moreover from found have "p \<in> set (feeds s)" by (simp add: Feed_findById_mem)
  ultimately have d: "distinct (likes p)" by (simp add: db_inv_def)
  have r1: "likeFeedHandler u (Castable i) s = (s1, Response 200 (FeedDoc p1))"
    using likeFeedHandler_found(1) [OF found] by (simp add: s1_def p1_def)
  have f1: "Feed_findById (feeds s1) i = Some p1"
    using likeFeedHandler_found(2) [OF found, of u] by (simp add: r1 p1_def)
  have r2: "likeFeedHandler u (Castable i) s1 = (s2, Response 200 (FeedDoc p2))"
    using likeFeedHandler_found(1) [OF f1] by (simp add: s2_def p2_def)
  have f2: "Feed_findById (feeds s2) i = Some p2"
    using likeFeedHandler_found(2) [OF f1, of u] by (simp add: r2 p2_def)
  have l1: "likes p1 = (if user_id u \<in> set (likes p) then remove1 (user_id u) (likes p)
                else likes p @ [user_id u])"
    by (simp add: p1_def toggleLike_eq)
  have m1: "user_id u \<in> set (likes p1) \<longleftrightarrow> user_id u \<notin> set (likes p)"
    using d by (simp add: l1)
  have l2: "set (likes p2) = set (likes p)"
    using d by (simp add: p2_def p1_def set_toggleLike_twice)
  from r1 f1 l1 m1 r2 f2 l2 show ?thesis by blast
qed

theorem toggleLike_twice_witness:
  "reachable exampleConfig exampleDb \<and>
   Feed_findById (feeds exampleDb) 4 = Some examplePost \<and>
   likes examplePost = [0] \<and> user_id exampleUser = 0 \<and> user_id exampleAdmin = 1 \<and>
   likeFeedHandler exampleUser (Castable 4) exampleDb =
     (exampleDb\<lparr>feeds := [examplePost\<lparr>likes := []\<rparr>]\<rparr>,
      Response 200 (FeedDoc (examplePost\<lparr>likes := []\<rparr>))) \<and>
   likeFeedHandler exampleUser (Castable 4) (exampleDb\<lparr>feeds := [examplePost\<lparr>likes := []\<rparr>]\<rparr>) =
     (exampleDb, Response 200 (FeedDoc examplePost)) \<and>
   likeFeedHandler exampleAdmin (Castable 4) exampleDb =
     (exampleDb\<lparr>feeds := [examplePost\<lparr>likes := [0, 1]\<rparr>]\<rparr>,
      Response 200 (FeedDoc (examplePost\<lparr>likes := [0, 1]\<rparr>))) \<and>
   likeFeedHandler exampleAdmin (Castable 4) (exampleDb\<lparr>feeds := [examplePost\<lparr>likes := [0, 1]\<rparr>]\<rparr>) =
     (exampleDb, Response 200 (FeedDoc examplePost))"
proof -
  have f: "Feed_findById (feeds exampleDb) 4 = Some examplePost"
    by (simp add: example_defs Feed_findById_def)
  from toggleLike_twice [OF exampleDb_reachable f, of exampleUser]
    toggleLike_twice [OF exampleDb_reachable f, of exampleAdmin]
  show ?thesis using exampleDb_reachable f
    by (simp add: example_defs route_defs)
qed

section \<open>No liker twice\<close>

lemma distinct_fold_toggleLike: "distinct ls \<Longrightarrow> distinct (fold toggleLike uids ls)"
  by (induction uids arbitrary: ls) (simp_all add: distinct_toggleLike)

text \<open>
  C7. In every store the server can reach from the empty one, by any requests at any
  times, no feed post lists a user id twice among its likes; and toggling the likes of
  such a post for any sequence of callers keeps it so.
\<close>

theorem likes_distinct_invariant:
  assumes "reachable cfg s" and "p \<in> set (feeds s)"
  shows "distinct (likes p) \<and> distinct (fold toggleLike uids (likes p))"
proof -
  from reachable_inv [OF assms(1)] assms(2) have "distinct (likes p)" by (simp add: db_inv_def)
  then show ?thesis by (simp add: distinct_fold_toggleLike)
qed

theorem likes_distinct_invariant_witness:
  "reachable exampleConfig
     (run exampleConfig
        [(at 6000, PostFeedLike (Bearer adminToken) (Castable 4)),
         (at 7000, PostFeedLike (Bearer userToken) (Castable 4)),
         (at 8000, PostFeedLike (Bearer userToken) (Castable 4))] exampleDb) \<and>
   feeds (run exampleConfig
        [(at 6000, PostFeedLike (Bearer adminToken) (Castable 4)),
         (at 7000, PostFeedLike (Bearer userToken) (Castable 4)),
         (at 8000, PostFeedLike (Bearer userToken) (Castable 4))] exampleDb) =
     [examplePost\<lparr>likes := [1, 0]\<rparr>] \<and>
   distinct (likes (examplePost\<lparr>likes := [1, 0]\<rparr>)) \<and>
   fold toggleLike [0, 2, 1, 2] (likes (examplePost\<lparr>likes := [1, 0]\<rparr>)) = [] \<and>
   distinct (fold toggleLike [0, 2, 1, 2] (likes (examplePost\<lparr>likes := [1, 0]\<rparr>)))"
proof -
  let ?rs = "[(at 6000, PostFeedLike (Bearer adminToken) (Castable 4)),
         (at 7000, PostFeedLike (Bearer userToken) (Castable 4)),
         (at 8000, PostFeedLike (Bearer userToken) (Castable 4))]"
  have r: "reachable exampleConfig (run exampleConfig ?rs exampleDb)"
    using exampleDb_reachable by (rule reachable_run)
  have e: "feeds (run exampleConfig ?rs exampleDb) = [examplePost\<lparr>likes := [1, 0]\<rparr>]"
    by (simp add: example_defs route_defs)
  then have m: "examplePost\<lparr>likes := [1, 0]\<rparr> \<in> set (feeds (run exampleConfig ?rs exampleDb))"
    by simp
  have t: "fold toggleLike [0, 2, 1, 2] (likes (examplePost\<lparr>likes := [1, 0]\<rparr>)) = []"
    by (simp add: toggleLike_def splice1_def)
  from likes_distinct_invariant [OF r m, of "[0, 2, 1, 2]"]
  show ?thesis using r e t by simp
qed

section \<open>Commenting on a post\<close>

lemma truthy_text: "truthy (Some (JStr tx)) \<longleftrightarrow> tx \<noteq> []"
  by (simp add: truthy_def)

lemma not_truthy_missing: "\<not> truthy None" "\<not> truthy (Some (JStr []))"
  by (simp_all add: truthy_def)

lemma commentFeedHandler_200:
  assumes "commentFeedHandler cfg t u pid ctext s = (s', Response 200 b)"
  shows "\<exists>i p tx. truthy ctext \<and> pid = Castable i \<and> Feed_findById (feeds s) i = Some p \<and>
     castText cfg ctext = Some tx \<and>
     s' = s\<lparr>nextObjectId := Suc (nextObjectId s),
            feeds := Feed_update
              (p\<lparr>comments := comments p @
                  [\<lparr>comment_id = nextObjectId s, comment_user = user_id u,
                    comment_text = tx, comment_createdAt = now t\<rparr>]\<rparr>) (feeds s)\<rparr> \<and>
     b = FeedDoc
           (p\<lparr>comments := comments p @
               [\<lparr>comment_id = nextObjectId s, comment_user = user_id u,
                 comment_text = tx, comment_createdAt = now t\<rparr>]\<rparr>)"
  using assms
  by (auto simp: commentFeedHandler_def serverError_def Let_def newObjectId_def
      split: if_splits id_param.splits option.splits)

text \<open>
  C9, as stated, fails: the handler looks the post up inside its \<open>try\<close>, and for a text
  that is not empty and a post id that does not cast to an ObjectId, which resolves to
  no post, the error that \<open>findById\<close> throws is answered 500, not 404.
\<close>

theorem addComment_not_found_counterexample:
  "commentFeedHandler exampleConfig (at 6000) exampleUser Uncastable (Some (JStr ''nice''))
     exampleDb =
     (exampleDb, Response 500 (Error ''Server error''))"
  by (simp add: commentFeedHandler_def truthy_def serverError_def)

text \<open>
  C9, amended. The comment handler, for any caller. A text that is missing or empty (or
  any other value that \<open>!text\<close> negates) is answered 400. A text that is not, on a post
  id that casts to an ObjectId and resolves to no post, is answered 404, and on a post
  id that does not cast, 500; the store is unchanged in these cases. Every answer 200
  is for a post found under the id, and carries that post with one comment appended at
  the end of its comments: its author is the caller, its text the text given (as the
  schema casts it, when it is no text), its time the time of the request; image URL,
  caption, likes, creator, creation time and the earlier comments are those of the post
  found. The store then holds this post under the id, every other post as before, and
  the same users and signals. A text that is not empty, on a post that is found, is
  answered 200.
\<close>

theorem addComment_frame:
  "(ctext = None \<or> ctext = Some (JStr []) \<or> \<not> truthy ctext \<longrightarrow>
      commentFeedHandler cfg t u pid ctext s =
        (s, Response 400 (Error ''Comment text is required''))) \<and>
   (\<forall>i. truthy ctext \<and> pid = Castable i \<and> Feed_findById (feeds s) i = None \<longrightarrow>
      commentFeedHandler cfg t u pid ctext s =
        (s, Response 404 (Error ''Feed post not found''))) \<and>
   (truthy ctext \<and> pid = Uncastable \<longrightarrow>
      commentFeedHandler cfg t u pid ctext s = (s, Response 500 (Error ''Server error''))) \<and>
   (\<forall>s' b. commentFeedHandler cfg t u pid ctext s = (s', Response 200 b) \<longrightarrow>
      (\<exists>i p p' c.
         pid = Castable i \<and> Feed_findById (feeds s) i = Some p \<and> b = FeedDoc p' \<and>
         Feed_findById (feeds s') i = Some p' \<and>
         comments p' = comments p @ [c] \<and>
         comment_user c = user_id u \<and> castText cfg ctext = Some (comment_text c) \<and>
         (\<forall>tx. ctext = Some (JStr tx) \<longrightarrow> comment_text c = tx) \<and>
         comment_createdAt c = now t \<and>
         p' = p\<lparr>comments := comments p'\<rparr> \<and>
         imageUrl p' = imageUrl p \<and> caption p' = caption p \<and> likes p' = likes p \<and>
         feed_createdBy p' = feed_createdBy p \<and> feed_createdAt p' = feed_createdAt p \<and>
         feed_id p' = feed_id p \<and>
         (\<forall>q. q \<noteq> i \<longrightarrow> Feed_findById (feeds s') q = Feed_findById (feeds s) q) \<and>
         length (feeds s') = length (feeds s) \<and>
         users s' = users s \<and> signals s' = signals s)) \<and>
   (\<forall>tx i p. ctext = Some (JStr tx) \<and> tx \<noteq> [] \<and> pid = Castable i \<and>
        Feed_findById (feeds s) i = Some p \<longrightarrow>
      status (snd (commentFeedHandler cfg t u pid ctext s)) = 200)"
proof (intro conjI allI impI)
  assume "ctext = None \<or> ctext = Some (JStr []) \<or> \<not> truthy ctext"
  then have "\<not> truthy ctext" using not_truthy_missing by auto
  then show "commentFeedHandler cfg t u pid ctext s =
      (s, Response 400 (Error ''Comment text is required''))"
    by (simp add: commentFeedHandler_def)
next
  fix i
  assume "truthy ctext \<and> pid = Castable i \<and> Feed_findById (feeds s) i = None"
  then show "commentFeedHandler cfg t u pid ctext s =
      (s, Response 404 (Error ''Feed post not found''))"
    by (simp add: commentFeedHandler_def)
next
  assume "truthy ctext \<and> pid = Uncastable"
  then show "commentFeedHandler cfg t u pid ctext s = (s, Response 500 (Error ''Server error''))"
    by (simp add: commentFeedHandler_def serverError_def)
next
  fix s' b
  assume r: "commentFeedHandler cfg t u pid ctext s = (s', Response 200 b)"
  from commentFeedHandler_200 [OF r] obtain i p tx where
    pid: "pid = Castable i" and found: "Feed_findById (feeds s) i = Some p"
    and cast: "castText cfg ctext = Some tx"
    and s0: "s' = s\<lparr>nextObjectId := Suc (nextObjectId s),
            feeds := Feed_update
              (p\<lparr>comments := comments p @
                  [\<lparr>comment_id = nextObjectId s, comment_user = user_id u,
                    comment_text = tx, comment_createdAt = now t\<rparr>]\<rparr>) (feeds s)\<rparr>"
    and b0: "b = FeedDoc
           (p\<lparr>comments := comments p @
               [\<lparr>comment_id = nextObjectId s, comment_user = user_id u,
                 comment_text = tx, comment_createdAt = now t\<rparr>]\<rparr>)"
    by blast
  define c where "c = \<lparr>comment_id = nextObjectId s, comment_user = user_id u,
                      comment_text = tx, comment_createdAt = now t\<rparr>"
  define p' where "p' = p\<lparr>comments := comments p @ [c]\<rparr>"
  have s': "s' = s\<lparr>nextObjectId := Suc (nextObjectId s), feeds := Feed_update p' (feeds s)\<rparr>"
    and b: "b = FeedDoc p'"
    by (simp_all add: s0 b0 p'_def c_def)
  from found have id': "feed_id p' = i" by (simp add: p'_def Feed_findById_mem)
  have f': "Feed_findById (feeds s') i = Some p'"
    using Feed_findById_update_same [OF found id'] by (simp add: s')
  have other: "\<forall>q. q \<noteq> i \<longrightarrow> Feed_findById (feeds s') q = Feed_findById (feeds s) q"
    using id' by (simp add: s' Feed_findById_update_other)
  have len: "length (feeds s') = length (feeds s)"
    by (simp add: s' length_Feed_update)
  have fields: "comments p' = comments p @ [c]" "p' = p\<lparr>comments := comments p'\<rparr>"
    "imageUrl p' = imageUrl p" "caption p' = caption p" "likes p' = likes p"
    "feed_createdBy p' = feed_createdBy p" "feed_createdAt p' = feed_createdAt p"
    "feed_id p' = feed_id p"
    by (simp_all add: p'_def)
  have cf: "comment_user c = user_id u" "castText cfg ctext = Some (comment_text c)"
    "comment_createdAt c = now t"
    by (simp_all add: c_def cast)
  have given: "\<forall>x. ctext = Some (JStr x) \<longrightarrow> comment_text c = x"
    using cast by (auto simp: c_def castText_def)
  have st: "users s' = users s" "signals s' = signals s" by (simp_all add: s')
  from pid found b f' fields cf given other len st
  show "\<exists>i p p' c.
         pid = Castable i \<and> Feed_findById (feeds s) i = Some p \<and> b = FeedDoc p' \<and>
         Feed_findById (feeds s') i = Some p' \<and>
         comments p' = comments p @ [c] \<and>
         comment_user c = user_id u \<and> castText cfg ctext = Some (comment_text c) \<and>
         (\<forall>tx. ctext = Some (JStr tx) \<longrightarrow> comment_text c = tx) \<and>
         comment_createdAt c = now t \<and>
         p' = p\<lparr>comments := comments p'\<rparr> \<and>
         imageUrl p' = imageUrl p \<and> caption p' = caption p \<and> likes p' = likes p \<and>
         feed_createdBy p' = feed_createdBy p \<and> feed_createdAt p' = feed_createdAt p \<and>
         feed_id p' = feed_id p \<and>
         (\<forall>q. q \<noteq> i \<longrightarrow> Feed_findById (feeds s') q = Feed_findById (feeds s) q) \<and>
         length (feeds s') = length (feeds s) \<and>
         users s' = users s \<and> signals s' = signals s"
    by blast
next
  fix tx i p
  assume "ctext = Some (JStr tx) \<and> tx \<noteq> [] \<and> pid = Castable i \<and>
        Feed_findById (feeds s) i = Some p"
  then show "status (snd (commentFeedHandler cfg t u pid ctext s)) = 200"
    by (simp add: commentFeedHandler_def truthy_def castText_def Let_def newObjectId_def)
qed

theorem addComment_frame_witness:
  "commentFeedHandler exampleConfig (at 6000) exampleUser (Castable 4) (Some (JStr [])) exampleDb =
     (exampleDb, Response 400 (Error ''Comment text is required'')) \<and>
   Feed_findById (feeds exampleDb) 7 = None \<and>
   commentFeedHandler exampleConfig (at 6000) exampleUser (Castable 7) (Some (JStr ''nice''))
       exampleDb =
     (exampleDb, Response 404 (Error ''Feed post not found'')) \<and>
   commentFeedHandler exampleConfig (at 6000) exampleUser Uncastable (Some (JStr ''nice''))
       exampleDb =
     (exampleDb, Response 500 (Error ''Server error'')) \<and>
   Feed_findById (feeds exampleDb) 4 = Some examplePost \<and>
   commentFeedHandler exampleConfig (at 6000) exampleUser (Castable 4) (Some (JStr ''nice''))
       exampleDb =
     (exampleDb\<lparr>nextObjectId := 6,
        feeds := [examplePost\<lparr>comments :=
          [\<lparr>comment_id = 5, comment_user = 0, comment_text = ''nice'',
            comment_createdAt = 6000\<rparr>]\<rparr>]\<rparr>,
      Response 200 (FeedDoc (examplePost\<lparr>comments :=
          [\<lparr>comment_id = 5, comment_user = 0, comment_text = ''nice'',
            comment_createdAt = 6000\<rparr>]\<rparr>)))"
proof -
  have n: "Feed_findById (feeds exampleDb) 7 = None"
    and f: "Feed_findById (feeds exampleDb) 4 = Some examplePost"
    by (simp_all add: example_defs Feed_findById_def)
  from addComment_frame [of "Some (JStr [])" exampleConfig "at 6000" exampleUser "Castable 4" exampleDb]
    addComment_frame [of "Some (JStr ''nice'')" exampleConfig "at 6000" exampleUser "Castable 7" exampleDb]
    addComment_frame [of "Some (JStr ''nice'')" exampleConfig "at 6000" exampleUser Uncastable exampleDb]
    addComment_frame [of "Some (JStr ''nice'')" exampleConfig "at 6000" exampleUser "Castable 4" exampleDb]
  show ?thesis using n f by (simp add: example_defs route_defs serverError_def)
qed

text \<open>
  C10. The comment handler tests the text before it looks the post up: a text that is
  missing or empty is answered 400 for every post id, so also for an id that resolves
  to no post, whether it casts to an ObjectId or not, where a text that is not empty
  is answered 404 when the id casts.
\<close>

theorem addComment_text_checked_first:
  assumes "ctext = None \<or> ctext = Some (JStr [])"
  shows "commentFeedHandler cfg t u pid ctext s =
           (s, Response 400 (Error ''Comment text is required'')) \<and>
         (\<forall>i. pid = Castable i \<and> Feed_findById (feeds s) i = None \<longrightarrow>
            status (snd (commentFeedHandler cfg t u pid ctext s)) = 400 \<and>
            (\<forall>tx. tx \<noteq> [] \<longrightarrow>
               status (snd (commentFeedHandler cfg t u pid (Some (JStr tx)) s)) = 404))"
  using assms by (auto simp: commentFeedHandler_def truthy_def)

theorem addComment_text_checked_first_witness:
  "Feed_findById (feeds exampleDb) 7 = None \<and>
   commentFeedHandler exampleConfig (at 6000) exampleUser (Castable 7) None exampleDb =
     (exampleDb, Response 400 (Error ''Comment text is required'')) \<and>
   commentFeedHandler exampleConfig (at 6000) exampleUser (Castable 7) (Some (JStr [])) exampleDb =
     (exampleDb, Response 400 (Error ''Comment text is required'')) \<and>
   commentFeedHandler exampleConfig (at 6000) exampleUser Uncastable (Some (JStr [])) exampleDb =
     (exampleDb, Response 400 (Error ''Comment text is required'')) \<and>
   status (snd (commentFeedHandler exampleConfig (at 6000) exampleUser (Castable 7)
     (Some (JStr ''x'')) exampleDb)) = 404"
proof -
  have n: "Feed_findById (feeds exampleDb) 7 = None"
    by (simp add: example_defs Feed_findById_def)
  have a: "(None :: json option) = None \<or> (None :: json option) = Some (JStr [])" by simp
  have b: "Some (JStr []) = (None :: json option) \<or> Some (JStr []) = Some (JStr [])" by simp
  from addComment_text_checked_first [OF a, of exampleConfig "at 6000" exampleUser "Castable 7" exampleDb]
    addComment_text_checked_first [OF b, of exampleConfig "at 6000" exampleUser "Castable 7" exampleDb]
    addComment_text_checked_first [OF b, of exampleConfig "at 6000" exampleUser Uncastable exampleDb]
  show ?thesis using n by simp
qed

end
